theory Spec2Isabelle
  imports Main "HOL-Library.Word"
begin

section \<open>Run-time failures\<close>

text \<open>
  Go code fails at run time by panicking.  The two panics the modelled functions can reach
  are the call of a method on a nil interface or the read of a field through a nil pointer,
  and the access of a slice outside its bounds.
\<close>

datatype panic = NilPointerDereference | IndexOutOfRange

section \<open>Response entities (gift.go)\<close>

text \<open>
  The entity structs are passive data holders.  Each record keeps the pointer-typed fields
  that the two projections of \<open>Update\<close> read, together with the leading scalar fields of
  the struct; a Go pointer \<open>*T\<close> is a \<open>T option\<close>, with \<open>None\<close> for nil.  Field names are
  the source's, prefixed by the struct's name because several structs share \<open>From\<close>,
  \<open>Chat\<close> and \<open>User\<close>.
\<close>

record User =
  User_ID :: int
  User_IsBot :: bool
  User_FirstName :: string
  User_LastName :: string
  User_UserName :: string

record Chat =
  Chat_ID :: int
  Chat_Type :: string
  Chat_Title :: string

record Message =
  Message_MessageID :: int
  Message_From :: "User option"
  Message_SenderChat :: "Chat option"
  Message_Chat :: "Chat option"

record BusinessConnection =
  BusinessConnection_Id :: string
  BusinessConnection_User :: "User option"

record BusinessMessagesDeleted =
  BusinessMessagesDeleted_BusinessConnectionId :: string
  BusinessMessagesDeleted_Chat :: "Chat option"

record MessageReactionUpdated =
  MessageReactionUpdated_Chat :: "Chat option"
  MessageReactionUpdated_MessageId :: int
  MessageReactionUpdated_User :: "User option"
  MessageReactionUpdated_ActorChat :: "Chat option"

record MessageReactionCountUpdated =
  MessageReactionCountUpdated_Chat :: "Chat option"
  MessageReactionCountUpdated_MessageId :: int

record InlineQuery =
  InlineQuery_ID :: string
  InlineQuery_From :: "User option"
  InlineQuery_Query :: string

record ChosenInlineResult =
  ChosenInlineResult_ResultID :: string
  ChosenInlineResult_From :: "User option"

record CallbackQuery =
  CallbackQuery_ID :: string
  CallbackQuery_From :: "User option"
  CallbackQuery_Message :: "Message option"
  CallbackQuery_InlineMessageID :: string
  CallbackQuery_ChatInstance :: string
  CallbackQuery_Data :: string
  CallbackQuery_GameShortName :: string

record ShippingQuery =
  ShippingQuery_ID :: string
  ShippingQuery_From :: "User option"

record PreCheckoutQuery =
  PreCheckoutQuery_ID :: string
  PreCheckoutQuery_From :: "User option"

record PaidMediaPurchased =
  PaidMediaPurchased_From :: "User option"
  PaidMediaPurchased_PaidMediaPayload :: string

record Poll =
  Poll_ID :: string
  Poll_Question :: string

record PollAnswer =
  PollAnswer_PollID :: string
  PollAnswer_VoterChat :: "Chat option"
  PollAnswer_User :: "User option"

record ChatMemberUpdated =
  ChatMemberUpdated_Chat :: "Chat option"
  ChatMemberUpdated_From :: "User option"
  ChatMemberUpdated_Date :: int

record ChatJoinRequest =
  ChatJoinRequest_Chat :: "Chat option"
  ChatJoinRequest_From :: "User option"
  ChatJoinRequest_Date :: int

record ChatBoostUpdated =
  ChatBoostUpdated_Chat :: "Chat option"

record ChatBoostRemoved =
  ChatBoostRemoved_Chat :: "Chat option"
  ChatBoostRemoved_BoostId :: string

text \<open>The event envelope: every sub-payload is an optional pointer, in the source's order.\<close>

record Update =
  UpdateID :: int
  Message :: "Message option"
  EditedMessage :: "Message option"
  ChannelPost :: "Message option"
  EditedChannelPost :: "Message option"
  BusinessConnection :: "BusinessConnection option"
  BusinessMessage :: "Message option"
  EditedBusinessMessage :: "Message option"
  DeletedBusinessMessages :: "BusinessMessagesDeleted option"
  MessageReaction :: "MessageReactionUpdated option"
  MessageReactionCount :: "MessageReactionCountUpdated option"
  InlineQuery :: "InlineQuery option"
  ChosenInlineResult :: "ChosenInlineResult option"
  CallbackQuery :: "CallbackQuery option"
  ShippingQuery :: "ShippingQuery option"
  PreCheckoutQuery :: "PreCheckoutQuery option"
  PaidMediaPurchased :: "PaidMediaPurchased option"
  Poll :: "Poll option"
  PollAnswer :: "PollAnswer option"
  MyChatMember :: "ChatMemberUpdated option"
  ChatMember :: "ChatMemberUpdated option"
  ChatJoinRequest :: "ChatJoinRequest option"
  ChatBoost :: "ChatBoostUpdated option"
  RemovedChatBoost :: "ChatBoostRemoved option"
  PurchasedPaidMedia :: "PaidMediaPurchased option"

text \<open>
  \<open>Update.SentFrom\<close>: a \<open>switch\<close> whose cases test one sub-payload each for non-nil and
  return a \<open>*User\<close> field of it.  Every field read goes through a pointer that its case has
  just found non-nil, so no case can panic and the result is the plain \<open>*User\<close>.
\<close>

definition SentFrom :: "Update \<Rightarrow> User option" where
  "SentFrom u =
    (case Message u of Some m \<Rightarrow> Message_From m | None \<Rightarrow>
     (case EditedMessage u of Some m \<Rightarrow> Message_From m | None \<Rightarrow>
     (case ChannelPost u of Some m \<Rightarrow> Message_From m | None \<Rightarrow>
     (case EditedChannelPost u of Some m \<Rightarrow> Message_From m | None \<Rightarrow>
     (case BusinessConnection u of Some b \<Rightarrow> BusinessConnection_User b | None \<Rightarrow>
     (case BusinessMessage u of Some m \<Rightarrow> Message_From m | None \<Rightarrow>
     (case EditedBusinessMessage u of Some m \<Rightarrow> Message_From m | None \<Rightarrow>
     (case MessageReaction u of Some r \<Rightarrow> MessageReactionUpdated_User r | None \<Rightarrow>
     (case InlineQuery u of Some q \<Rightarrow> InlineQuery_From q | None \<Rightarrow>
     (case ChosenInlineResult u of Some r \<Rightarrow> ChosenInlineResult_From r | None \<Rightarrow>
     (case CallbackQuery u of Some q \<Rightarrow> CallbackQuery_From q | None \<Rightarrow>
     (case ShippingQuery u of Some q \<Rightarrow> ShippingQuery_From q | None \<Rightarrow>
     (case PreCheckoutQuery u of Some q \<Rightarrow> PreCheckoutQuery_From q | None \<Rightarrow>
     (case PollAnswer u of Some a \<Rightarrow> PollAnswer_User a | None \<Rightarrow>
     (case ChatMember u of Some c \<Rightarrow> ChatMemberUpdated_From c | None \<Rightarrow>
     (case ChatJoinRequest u of Some j \<Rightarrow> ChatJoinRequest_From j | None \<Rightarrow>
     None))))))))))))))))"

text \<open>
  \<open>Update.FromChat\<close>: the same shape over another set of sub-payloads.  The callback-query
  case returns \<open>u.CallbackQuery.Message.Chat\<close>: it reads \<open>Chat\<close> through the pointer
  \<open>CallbackQuery.Message\<close>, which the case has not tested, so a nil \<open>Message\<close> there
  is a nil-pointer dereference.  The result is therefore a sum.
\<close>

definition FromChat :: "Update \<Rightarrow> panic + Chat option" where
  "FromChat u =
    (case Message u of Some m \<Rightarrow> Inr (Message_Chat m) | None \<Rightarrow>
     (case EditedMessage u of Some m \<Rightarrow> Inr (Message_Chat m) | None \<Rightarrow>
     (case ChannelPost u of Some m \<Rightarrow> Inr (Message_Chat m) | None \<Rightarrow>
     (case EditedChannelPost u of Some m \<Rightarrow> Inr (Message_Chat m) | None \<Rightarrow>
     (case BusinessMessage u of Some m \<Rightarrow> Inr (Message_Chat m) | None \<Rightarrow>
     (case EditedBusinessMessage u of Some m \<Rightarrow> Inr (Message_Chat m) | None \<Rightarrow>
     (case DeletedBusinessMessages u of Some d \<Rightarrow> Inr (BusinessMessagesDeleted_Chat d) | None \<Rightarrow>
     (case MessageReaction u of Some r \<Rightarrow> Inr (MessageReactionUpdated_Chat r) | None \<Rightarrow>
     (case MessageReactionCount u of Some r \<Rightarrow> Inr (MessageReactionCountUpdated_Chat r) | None \<Rightarrow>
     (case CallbackQuery u of
       Some q \<Rightarrow>
         (case CallbackQuery_Message q of
            None \<Rightarrow> Inl NilPointerDereference
          | Some m \<Rightarrow> Inr (Message_Chat m))
     | None \<Rightarrow>
     (case MyChatMember u of Some c \<Rightarrow> Inr (ChatMemberUpdated_Chat c) | None \<Rightarrow>
     (case ChatMember u of Some c \<Rightarrow> Inr (ChatMemberUpdated_Chat c) | None \<Rightarrow>
     (case ChatJoinRequest u of Some j \<Rightarrow> Inr (ChatJoinRequest_Chat j) | None \<Rightarrow>
     (case ChatBoost u of Some b \<Rightarrow> Inr (ChatBoostUpdated_Chat b) | None \<Rightarrow>
     (case RemovedChatBoost u of Some b \<Rightarrow> Inr (ChatBoostRemoved_Chat b) | None \<Rightarrow>
     Inr None)))))))))))))))"

text \<open>An envelope with the given identifier and no sub-payload populated.\<close>

definition bare_update :: "int \<Rightarrow> Update" where
  "bare_update n =
    \<lparr>UpdateID = n, Message = None, EditedMessage = None, ChannelPost = None,
     EditedChannelPost = None, BusinessConnection = None, BusinessMessage = None,
     EditedBusinessMessage = None, DeletedBusinessMessages = None, MessageReaction = None,
     MessageReactionCount = None, InlineQuery = None, ChosenInlineResult = None,
     CallbackQuery = None, ShippingQuery = None, PreCheckoutQuery = None,
     PaidMediaPurchased = None, Poll = None, PollAnswer = None, MyChatMember = None,
     ChatMember = None, ChatJoinRequest = None, ChatBoost = None, RemovedChatBoost = None,
     PurchasedPaidMedia = None\<rparr>"

subsection \<open>The priority scan, in the specification's words\<close>

text \<open>
  A candidate is \<open>None\<close> when its sub-payload is not populated and \<open>Some s\<close> when it is,
  \<open>s\<close> being the sender pointer that sub-payload carries (itself possibly nil).  The scan
  returns the sender of the first populated candidate and nil when there is none.
\<close>

fun first_populated :: "'a option option list \<Rightarrow> 'a option" where
  "first_populated [] = None"
| "first_populated (None # cs) = first_populated cs"
| "first_populated (Some s # cs) = s"

definition sender_candidates :: "Update \<Rightarrow> User option option list" where
  "sender_candidates u =
    [map_option Message_From (Message u),
     map_option Message_From (EditedMessage u),
     map_option Message_From (ChannelPost u),
     map_option Message_From (EditedChannelPost u),
     map_option BusinessConnection_User (BusinessConnection u),
     map_option Message_From (BusinessMessage u),
     map_option Message_From (EditedBusinessMessage u),
     map_option MessageReactionUpdated_User (MessageReaction u),
     map_option InlineQuery_From (InlineQuery u),
     map_option ChosenInlineResult_From (ChosenInlineResult u),
     map_option CallbackQuery_From (CallbackQuery u),
     map_option ShippingQuery_From (ShippingQuery u),
     map_option PreCheckoutQuery_From (PreCheckoutQuery u),
     map_option PollAnswer_User (PollAnswer u),
     map_option ChatMemberUpdated_From (ChatMember u),
     map_option ChatJoinRequest_From (ChatJoinRequest u)]"

section \<open>File references (RequestFileData and its implementers)\<close>

text \<open>
  \<open>RequestFileData\<close> is an interface with six implementers in the repository, all value
  types.  \<open>FileReader\<close> holds an \<open>io.Reader\<close>, kept here as an opaque handle.  A variable of
  the interface type may also be nil: such a variable is a \<open>RequestFileData option\<close>.
\<close>

datatype RequestFileData =
    FileBytes string "8 word list"
  | FileReader string nat
  | FilePath string
  | FileURL string
  | FileID string
  | fileAttach string

fun NeedsUpload :: "RequestFileData \<Rightarrow> bool" where
  "NeedsUpload (FileBytes name bytes) = True"
| "NeedsUpload (FileReader name reader) = True"
| "NeedsUpload (FilePath fp) = True"
| "NeedsUpload (FileURL fu) = False"
| "NeedsUpload (FileID fi) = False"
| "NeedsUpload (fileAttach fa) = False"

text \<open>\<open>RequestFile\<close>: a file associated with a field name.\<close>

record RequestFile =
  Name :: string
  Data :: "RequestFileData option"

section \<open>Decimal formatting\<close>

text \<open>What \<open>fmt.Sprintf\<close> writes for the verb \<open>%d\<close> applied to an \<open>int\<close>.\<close>

fun decimal_nat :: "nat \<Rightarrow> string" where
  "decimal_nat n =
    (if n < 10 then [''0123456789'' ! n]
     else decimal_nat (n div 10) @ [''0123456789'' ! (n mod 10)])"

declare decimal_nat.simps [simp del]

definition Itoa :: "int \<Rightarrow> string" where
  "Itoa i = (if i < 0 then CHR ''-'' # decimal_nat (nat (- i)) else decimal_nat (nat i))"

section \<open>Input media items (gift.go)\<close>

record MessageEntity =
  MessageEntity_Type :: string
  MessageEntity_Offset :: int
  MessageEntity_Length :: int
  MessageEntity_URL :: string

record BaseInputMedia =
  Type :: string
  Media :: "RequestFileData option"
  Caption :: string
  ParseMode :: string
  CaptionEntities :: "MessageEntity list"

text \<open>
  The four structs below embed \<open>BaseInputMedia\<close>; the embedded struct is the field
  \<open>..._Base\<close>, and the promoted field \<open>m.Media\<close> of the source is \<open>Media (..._Base m)\<close>.
\<close>

record InputMediaPhoto =
  Photo_Base :: BaseInputMedia

record InputMediaVideo =
  Video_Base :: BaseInputMedia
  Video_Thumb :: "RequestFileData option"
  Video_Width :: int
  Video_Height :: int
  Video_Duration :: int
  Video_SupportsStreaming :: bool

record InputMediaAnimation =
  Animation_Base :: BaseInputMedia
  Animation_Thumb :: "RequestFileData option"
  Animation_Width :: int
  Animation_Height :: int
  Animation_Duration :: int

record InputMediaAudio =
  Audio_Base :: BaseInputMedia
  Audio_Thumb :: "RequestFileData option"
  Audio_Duration :: int
  Audio_Performer :: string
  Audio_Title :: string

record InputMediaDocument =
  Document_Base :: BaseInputMedia
  Document_Thumb :: "RequestFileData option"
  Document_DisableContentTypeDetection :: bool

text \<open>
  The rewriter receives its items as \<open>interface{}\<close>.  A value of that type is one of the
  four struct values its type switches name, or anything else: \<open>InputMediaAnimation\<close>, the
  nil interface, or a value of some other dynamic type (a pointer to one of the structs
  included), which the model keeps as a description of that value.
\<close>

datatype dyn =
    DynPhoto InputMediaPhoto
  | DynVideo InputMediaVideo
  | DynAudio InputMediaAudio
  | DynDocument InputMediaDocument
  | DynAnimation InputMediaAnimation
  | DynNil
  | DynOther string

section \<open>The media-group rewriter, one item\<close>

text \<open>
  \<open>m.Media.NeedsUpload()\<close> calls a method on an interface value and panics when the
  interface is nil; \<open>m.Thumb != nil && m.Thumb.NeedsUpload()\<close> tests first.  The type switch
  binds \<open>m\<close> to a copy of the struct, and the assignment \<open>m.Media = ...\<close> to the promoted
  field updates the embedded \<open>BaseInputMedia\<close> of that copy (\<open>set_Media\<close>).  The default
  of the switch returns the nil interface, \<open>DynNil\<close>.
\<close>

definition set_Media :: "RequestFileData \<Rightarrow> BaseInputMedia \<Rightarrow> BaseInputMedia" where
  "set_Media f b = b\<lparr>Media := Some f\<rparr>"

definition thumb_NeedsUpload :: "RequestFileData option \<Rightarrow> bool" where
  "thumb_NeedsUpload t = (case t of None \<Rightarrow> False | Some f \<Rightarrow> NeedsUpload f)"

fun prepareInputMediaParam :: "dyn \<Rightarrow> int \<Rightarrow> panic + dyn" where
  "prepareInputMediaParam (DynPhoto m) idx =
    (case Media (Photo_Base m) of
       None \<Rightarrow> Inl NilPointerDereference
     | Some f \<Rightarrow>
        (let m1 = (if NeedsUpload f
                   then m\<lparr>Photo_Base := set_Media (fileAttach (''attach://file-'' @ Itoa idx)) (Photo_Base m)\<rparr>
                   else m)
         in Inr (DynPhoto m1)))"
| "prepareInputMediaParam (DynVideo m) idx =
    (case Media (Video_Base m) of
       None \<Rightarrow> Inl NilPointerDereference
     | Some f \<Rightarrow>
        (let m1 = (if NeedsUpload f
                   then m\<lparr>Video_Base := set_Media (fileAttach (''attach://file-'' @ Itoa idx)) (Video_Base m)\<rparr>
                   else m);
             m2 = (if thumb_NeedsUpload (Video_Thumb m1)
                   then m1\<lparr>Video_Thumb := Some (fileAttach (''attach://file-'' @ Itoa idx @ ''-thumb''))\<rparr>
                   else m1)
         in Inr (DynVideo m2)))"
| "prepareInputMediaParam (DynAudio m) idx =
    (case Media (Audio_Base m) of
       None \<Rightarrow> Inl NilPointerDereference
     | Some f \<Rightarrow>
        (let m1 = (if NeedsUpload f
                   then m\<lparr>Audio_Base := set_Media (fileAttach (''attach://file-'' @ Itoa idx)) (Audio_Base m)\<rparr>
                   else m);
             m2 = (if thumb_NeedsUpload (Audio_Thumb m1)
                   then m1\<lparr>Audio_Thumb := Some (fileAttach (''attach://file-'' @ Itoa idx @ ''-thumb''))\<rparr>
                   else m1)
         in Inr (DynAudio m2)))"
| "prepareInputMediaParam (DynDocument m) idx =
    (case Media (Document_Base m) of
       None \<Rightarrow> Inl NilPointerDereference
     | Some f \<Rightarrow>
        (let m1 = (if NeedsUpload f
                   then m\<lparr>Document_Base := set_Media (fileAttach (''attach://file-'' @ Itoa idx)) (Document_Base m)\<rparr>
                   else m);
             m2 = (if thumb_NeedsUpload (Document_Thumb m1)
                   then m1\<lparr>Document_Thumb := Some (fileAttach (''attach://file-'' @ Itoa idx @ ''-thumb''))\<rparr>
                   else m1)
         in Inr (DynDocument m2)))"
| "prepareInputMediaParam (DynAnimation m) idx = Inr DynNil"
| "prepareInputMediaParam DynNil idx = Inr DynNil"
| "prepareInputMediaParam (DynOther v) idx = Inr DynNil"

text \<open>
  \<open>prepareInputMediaFile\<close>.  Both appends of a case format the name with \<open>"file-%d"\<close>: the
  thumbnail part gets the same name as the media part.  The cases are in the source's order.
\<close>

fun prepareInputMediaFile :: "dyn \<Rightarrow> int \<Rightarrow> panic + RequestFile list" where
  "prepareInputMediaFile (DynPhoto m) idx =
    (case Media (Photo_Base m) of
       None \<Rightarrow> Inl NilPointerDereference
     | Some f \<Rightarrow>
        (let files = [];
             files = (if NeedsUpload f
                      then files @ [\<lparr>Name = ''file-'' @ Itoa idx, Data = Media (Photo_Base m)\<rparr>]
                      else files)
         in Inr files))"
| "prepareInputMediaFile (DynVideo m) idx =
    (case Media (Video_Base m) of
       None \<Rightarrow> Inl NilPointerDereference
     | Some f \<Rightarrow>
        (let files = [];
             files = (if NeedsUpload f
                      then files @ [\<lparr>Name = ''file-'' @ Itoa idx, Data = Media (Video_Base m)\<rparr>]
                      else files);
             files = (if thumb_NeedsUpload (Video_Thumb m)
                      then files @ [\<lparr>Name = ''file-'' @ Itoa idx, Data = Video_Thumb m\<rparr>]
                      else files)
         in Inr files))"
| "prepareInputMediaFile (DynDocument m) idx =
    (case Media (Document_Base m) of
       None \<Rightarrow> Inl NilPointerDereference
     | Some f \<Rightarrow>
        (let files = [];
             files = (if NeedsUpload f
                      then files @ [\<lparr>Name = ''file-'' @ Itoa idx, Data = Media (Document_Base m)\<rparr>]
                      else files);
             files = (if thumb_NeedsUpload (Document_Thumb m)
                      then files @ [\<lparr>Name = ''file-'' @ Itoa idx, Data = Document_Thumb m\<rparr>]
                      else files)
         in Inr files))"
| "prepareInputMediaFile (DynAudio m) idx =
    (case Media (Audio_Base m) of
       None \<Rightarrow> Inl NilPointerDereference
     | Some f \<Rightarrow>
        (let files = [];
             files = (if NeedsUpload f
                      then files @ [\<lparr>Name = ''file-'' @ Itoa idx, Data = Media (Audio_Base m)\<rparr>]
                      else files);
             files = (if thumb_NeedsUpload (Audio_Thumb m)
                      then files @ [\<lparr>Name = ''file-'' @ Itoa idx, Data = Audio_Thumb m\<rparr>]
                      else files)
         in Inr files))"
| "prepareInputMediaFile (DynAnimation m) idx = Inr []"
| "prepareInputMediaFile DynNil idx = Inr []"
| "prepareInputMediaFile (DynOther v) idx = Inr []"

section \<open>Slices of items in a store\<close>

text \<open>
  A Go slice is a window on a backing array that other slices may share, so a write through
  one slice is seen through every slice on the same array.  The store holds the backing
  arrays, addressed by their position; a slice names its array, the offset of its first
  element and its length.  \<open>make\<close> allocates a new array at the end of the store.
\<close>

type_synonym store = "dyn list list"

record slice =
  slice_array :: nat
  slice_off :: nat
  slice_len :: nat

definition valid_slice :: "store \<Rightarrow> slice \<Rightarrow> bool" where
  "valid_slice st sl =
    (slice_array sl < length st \<and> slice_off sl + slice_len sl \<le> length (st ! slice_array sl))"

text \<open>The elements seen through a slice.\<close>

definition slice_items :: "store \<Rightarrow> slice \<Rightarrow> dyn list" where
  "slice_items st sl =
    (if slice_array sl < length st
     then take (slice_len sl) (drop (slice_off sl) (st ! slice_array sl))
     else [])"

text \<open>\<open>s[i]\<close> as an expression and as the target of an assignment; both check the bounds.\<close>

definition slice_get :: "store \<Rightarrow> slice \<Rightarrow> nat \<Rightarrow> panic + dyn" where
  "slice_get st sl i =
    (if i < slice_len sl \<and> slice_array sl < length st
        \<and> slice_off sl + i < length (st ! slice_array sl)
     then Inr (st ! slice_array sl ! (slice_off sl + i))
     else Inl IndexOutOfRange)"

definition slice_set :: "slice \<Rightarrow> nat \<Rightarrow> dyn \<Rightarrow> store \<Rightarrow> panic + store" where
  "slice_set sl i v st =
    (if i < slice_len sl \<and> slice_array sl < length st
        \<and> slice_off sl + i < length (st ! slice_array sl)
     then Inr (st[slice_array sl := (st ! slice_array sl)[slice_off sl + i := v]])
     else Inl IndexOutOfRange)"

text \<open>\<open>make([]interface{}, n)\<close>: a new array of \<open>n\<close> nil interfaces.\<close>

definition make_slice :: "nat \<Rightarrow> store \<Rightarrow> slice \<times> store" where
  "make_slice n st =
    (\<lparr>slice_array = length st, slice_off = 0, slice_len = n\<rparr>, st @ [replicate n DynNil])"

text \<open>
  \<open>copy(dst, src)\<close>: the first \<open>min (len dst) (len src)\<close> elements of \<open>src\<close>, read before any
  is written, replace the elements of \<open>dst\<close> at the same positions.
\<close>

definition copy_slice :: "slice \<Rightarrow> slice \<Rightarrow> store \<Rightarrow> store" where
  "copy_slice dst src st =
    (let vals = take (slice_len dst) (slice_items st src);
         a = st ! slice_array dst
     in st[slice_array dst :=
             take (slice_off dst) a @ vals @ drop (slice_off dst + length vals) a])"

section \<open>The media-group rewriter, a list of items\<close>

text \<open>
  \<open>prepareInputMediaForParams\<close>.  The loop \<open>for idx, media := range inputMedia\<close> runs over
  the indices \<open>0 .. len(inputMedia) - 1\<close>, reads \<open>inputMedia[idx]\<close> at each turn and, when
  \<open>prepareInputMediaParam\<close> returns a non-nil value, stores it in \<open>newMedia[idx]\<close>.  The
  function returns the final store beside its result, so that what it wrote can be seen.
\<close>

fun params_loop :: "slice \<Rightarrow> slice \<Rightarrow> nat list \<Rightarrow> store \<Rightarrow> panic option \<times> store" where
  "params_loop inputMedia newMedia [] st = (None, st)"
| "params_loop inputMedia newMedia (idx # rest) st =
    (case slice_get st inputMedia idx of
       Inl e \<Rightarrow> (Some e, st)
     | Inr media \<Rightarrow>
        (case prepareInputMediaParam media (int idx) of
           Inl e \<Rightarrow> (Some e, st)
         | Inr param \<Rightarrow>
            (if param \<noteq> DynNil
             then (case slice_set newMedia idx param st of
                     Inl e \<Rightarrow> (Some e, st)
                   | Inr st' \<Rightarrow> params_loop inputMedia newMedia rest st')
             else params_loop inputMedia newMedia rest st)))"

definition prepareInputMediaForParams :: "slice \<Rightarrow> store \<Rightarrow> (panic + slice) \<times> store" where
  "prepareInputMediaForParams inputMedia st =
    (let (newMedia, st1) = make_slice (slice_len inputMedia) st;
         st2 = copy_slice newMedia inputMedia st1
     in case params_loop inputMedia newMedia [0..<slice_len inputMedia] st2 of
          (Some e, st3) \<Rightarrow> (Inl e, st3)
        | (None, st3) \<Rightarrow> (Inr newMedia, st3))"

text \<open>
  \<open>prepareInputMediaForFiles\<close> only reads the store.  Its local \<open>files\<close> starts as an empty
  slice and grows by \<open>append\<close>; \<open>prepareInputMediaFile\<close> never returns nil (it returns its
  own non-nil \<open>files\<close>), so the test \<open>file != nil\<close> always succeeds.
\<close>

fun files_loop :: "slice \<Rightarrow> nat list \<Rightarrow> store \<Rightarrow> RequestFile list \<Rightarrow> panic + RequestFile list" where
  "files_loop inputMedia [] st files = Inr files"
| "files_loop inputMedia (idx # rest) st files =
    (case slice_get st inputMedia idx of
       Inl e \<Rightarrow> Inl e
     | Inr media \<Rightarrow>
        (case prepareInputMediaFile media (int idx) of
           Inl e \<Rightarrow> Inl e
         | Inr file \<Rightarrow> files_loop inputMedia rest st (files @ file)))"

definition prepareInputMediaForFiles :: "slice \<Rightarrow> store \<Rightarrow> panic + RequestFile list" where
  "prepareInputMediaForFiles inputMedia st =
    files_loop inputMedia [0..<slice_len inputMedia] st []"

section \<open>The rewrite, in the specification's words\<close>

text \<open>
  The specification describes the rewrite item by item.  An item is recognised when its
  variant is one of photo, video, audio and document.  An input media item carries a media
  reference; \<open>has_media\<close> says so of a recognised item (the Go field is an interface and may
  be nil, on which the source panics), and holds of every other value.
\<close>

definition recognised :: "dyn \<Rightarrow> bool" where
  "recognised x =
    (case x of DynPhoto m \<Rightarrow> True | DynVideo m \<Rightarrow> True | DynAudio m \<Rightarrow> True
      | DynDocument m \<Rightarrow> True | DynAnimation m \<Rightarrow> False | DynNil \<Rightarrow> False
      | DynOther v \<Rightarrow> False)"

definition has_media :: "dyn \<Rightarrow> bool" where
  "has_media x =
    (case x of
       DynPhoto m \<Rightarrow> Media (Photo_Base m) \<noteq> None
     | DynVideo m \<Rightarrow> Media (Video_Base m) \<noteq> None
     | DynAudio m \<Rightarrow> Media (Audio_Base m) \<noteq> None
     | DynDocument m \<Rightarrow> Media (Document_Base m) \<noteq> None
     | DynAnimation m \<Rightarrow> True
     | DynNil \<Rightarrow> True
     | DynOther v \<Rightarrow> True)"

text \<open>
  A reference that requires upload is replaced by the placeholder with the given token,
  any other reference is kept: the media reference with the token \<open>attach://file-<i>\<close>,
  the thumbnail, if there is one, with \<open>attach://file-<i>-thumb\<close>.  All other fields of
  the item stay, and an item that is not recognised is returned as it is.
\<close>

definition placeholder :: "string \<Rightarrow> RequestFileData \<Rightarrow> RequestFileData" where
  "placeholder token r = (if NeedsUpload r then fileAttach token else r)"

definition rewritten_base :: "int \<Rightarrow> BaseInputMedia \<Rightarrow> BaseInputMedia" where
  "rewritten_base i b =
    b\<lparr>Media := map_option (placeholder (''attach://file-'' @ Itoa i)) (Media b)\<rparr>"

definition rewritten_thumb :: "int \<Rightarrow> RequestFileData option \<Rightarrow> RequestFileData option" where
  "rewritten_thumb i t = map_option (placeholder (''attach://file-'' @ Itoa i @ ''-thumb'')) t"

fun rewritten_item :: "int \<Rightarrow> dyn \<Rightarrow> dyn" where
  "rewritten_item i (DynPhoto m) = DynPhoto (m\<lparr>Photo_Base := rewritten_base i (Photo_Base m)\<rparr>)"
| "rewritten_item i (DynVideo m) =
    DynVideo (m\<lparr>Video_Base := rewritten_base i (Video_Base m),
                Video_Thumb := rewritten_thumb i (Video_Thumb m)\<rparr>)"
| "rewritten_item i (DynAudio m) =
    DynAudio (m\<lparr>Audio_Base := rewritten_base i (Audio_Base m),
                Audio_Thumb := rewritten_thumb i (Audio_Thumb m)\<rparr>)"
| "rewritten_item i (DynDocument m) =
    DynDocument (m\<lparr>Document_Base := rewritten_base i (Document_Base m),
                   Document_Thumb := rewritten_thumb i (Document_Thumb m)\<rparr>)"
| "rewritten_item i (DynAnimation m) = DynAnimation m"
| "rewritten_item i DynNil = DynNil"
| "rewritten_item i (DynOther v) = DynOther v"

text \<open>The parts one item contributes: what \<open>prepareInputMediaFile\<close> returns for it.\<close>

definition parts_of :: "dyn \<Rightarrow> int \<Rightarrow> RequestFile list" where
  "parts_of x idx = (case prepareInputMediaFile x idx of Inl e \<Rightarrow> [] | Inr files \<Rightarrow> files)"

text \<open>
  An item of which no reference requires upload: a recognised item carries a media
  reference that does not require upload, and its thumbnail, if present, does not either.
\<close>

definition requires_no_upload :: "dyn \<Rightarrow> bool" where
  "requires_no_upload x =
    (case x of
       DynPhoto m \<Rightarrow>
         (case Media (Photo_Base m) of None \<Rightarrow> False | Some f \<Rightarrow> \<not> NeedsUpload f)
     | DynVideo m \<Rightarrow>
         (case Media (Video_Base m) of None \<Rightarrow> False | Some f \<Rightarrow> \<not> NeedsUpload f)
         \<and> \<not> thumb_NeedsUpload (Video_Thumb m)
     | DynAudio m \<Rightarrow>
         (case Media (Audio_Base m) of None \<Rightarrow> False | Some f \<Rightarrow> \<not> NeedsUpload f)
         \<and> \<not> thumb_NeedsUpload (Audio_Thumb m)
     | DynDocument m \<Rightarrow>
         (case Media (Document_Base m) of None \<Rightarrow> False | Some f \<Rightarrow> \<not> NeedsUpload f)
         \<and> \<not> thumb_NeedsUpload (Document_Thumb m)
     | DynAnimation m \<Rightarrow> True
     | DynNil \<Rightarrow> True
     | DynOther v \<Rightarrow> True)"

text \<open>Sample items and a slice over a whole array.\<close>

definition video_to_upload :: InputMediaVideo where
  "video_to_upload =
    \<lparr>Video_Base = \<lparr>Type = ''video'', Media = Some (FilePath ''v.mp4''), Caption = ''clip'',
                   ParseMode = [], CaptionEntities = []\<rparr>,
     Video_Thumb = Some (FilePath ''t.jpg''), Video_Width = 640, Video_Height = 480,
     Video_Duration = 12, Video_SupportsStreaming = True\<rparr>"

definition photo_by_url :: InputMediaPhoto where
  "photo_by_url =
    \<lparr>Photo_Base = \<lparr>Type = ''photo'', Media = Some (FileURL ''https://example.org/p.png''),
                   Caption = [], ParseMode = [], CaptionEntities = []\<rparr>\<rparr>"

definition document_by_id :: InputMediaDocument where
  "document_by_id =
    \<lparr>Document_Base = \<lparr>Type = ''document'', Media = Some (FileID ''AgAD''), Caption = [],
                      ParseMode = [], CaptionEntities = []\<rparr>,
     Document_Thumb = Some (FileURL ''https://example.org/t.png''),
     Document_DisableContentTypeDetection = False\<rparr>"

definition animation_to_upload :: InputMediaAnimation where
  "animation_to_upload =
    \<lparr>Animation_Base = \<lparr>Type = ''animation'', Media = Some (FilePath ''a.gif''), Caption = [],
                       ParseMode = [], CaptionEntities = []\<rparr>,
     Animation_Thumb = None, Animation_Width = 0, Animation_Height = 0, Animation_Duration = 0\<rparr>"

definition whole :: "nat \<Rightarrow> nat \<Rightarrow> slice" where
  "whole a n = \<lparr>slice_array = a, slice_off = 0, slice_len = n\<rparr>"

section \<open>Parameter mapping\<close>

text \<open>
  \<open>Params\<close> is a Go map from field name to field value.  Its methods mutate the map they
  are called on; the model returns the updated map.  The declaration of \<open>Params\<close> and of
  its methods is missing from the sources, so the methods used by the request types below
  are modelled from the specification (section 4.1); the test of the story requests, which
  expects \<open>params["protect_content"] == "false"\<close> for a false flag, agrees with it on
  \<open>AddBool\<close>.
\<close>

type_synonym Params = "string \<rightharpoonup> string"

datatype error = InvalidParameterError | SerializationError

text \<open>
  A value handed to \<open>AddInterface\<close> is only ever serialised, so it is kept as what
  \<open>AddInterface\<close> makes of it: nothing for a value it leaves out (an absent, nil value),
  a JSON text, or a failure to serialise.
\<close>

datatype encodable = Absent | Encodes string | NotEncodable

text \<open>A candidate of \<open>AddFirstValid\<close>: an integer identifier or a string.\<close>

datatype candidate = IntArg int | StringArg string

text \<open>
  Modelled from the spec: \<open>Params.AddNonZero\<close> (its declaration is missing), the spec's
  \<open>addIfNonZero(key, int)\<close>: inserts the decimal string of the value only if the value is
  not zero.
\<close>

definition AddNonZero :: "string \<Rightarrow> int \<Rightarrow> Params \<Rightarrow> Params" where
  "AddNonZero key v p = (if v \<noteq> 0 then p(key \<mapsto> Itoa v) else p)"

text \<open>
  Modelled from the spec: \<open>Params.AddNonZero64\<close> (its declaration is missing), the same
  \<open>addIfNonZero\<close> for a 64-bit integer.
\<close>

definition AddNonZero64 :: "string \<Rightarrow> int \<Rightarrow> Params \<Rightarrow> Params" where
  "AddNonZero64 key v p = (if v \<noteq> 0 then p(key \<mapsto> Itoa v) else p)"

text \<open>
  Modelled from the spec: \<open>Params.AddNonEmpty\<close> (its declaration is missing), the spec's
  \<open>addIfNonEmpty(key, string)\<close>: inserts only if the string is not empty.
\<close>

definition AddNonEmpty :: "string \<Rightarrow> string \<Rightarrow> Params \<Rightarrow> Params" where
  "AddNonEmpty key v p = (if v \<noteq> [] then p(key \<mapsto> v) else p)"

text \<open>
  Modelled from the spec: \<open>Params.AddBool\<close> (its declaration is missing), the spec's
  \<open>addBool(key, bool)\<close>: always inserts \<open>"true"\<close> or \<open>"false"\<close>; a boolean is never omitted,
  even when false.
\<close>

definition AddBool :: "string \<Rightarrow> bool \<Rightarrow> Params \<Rightarrow> Params" where
  "AddBool key v p = p(key \<mapsto> (if v then ''true'' else ''false''))"

text \<open>
  Modelled from the spec: \<open>Params.AddFirstValid\<close> (its declaration is missing), the spec's
  \<open>addFirstValid(key, candidates...)\<close>: scans the candidates in order and inserts the first
  one that is non-zero or non-empty; fails with an \<open>InvalidParameterError\<close> if none
  qualifies.
\<close>

fun first_valid :: "candidate list \<Rightarrow> string option" where
  "first_valid [] = None"
| "first_valid (IntArg i # cs) = (if i \<noteq> 0 then Some (Itoa i) else first_valid cs)"
| "first_valid (StringArg s # cs) = (if s \<noteq> [] then Some s else first_valid cs)"

definition AddFirstValid :: "string \<Rightarrow> candidate list \<Rightarrow> Params \<Rightarrow> Params \<times> error option" where
  "AddFirstValid key cs p =
    (case first_valid cs of
       Some v \<Rightarrow> (p(key \<mapsto> v), None)
     | None \<Rightarrow> (p, Some InvalidParameterError))"

text \<open>
  Modelled from the spec: \<open>Params.AddInterface\<close> (its declaration is missing), the spec's
  \<open>addJSON(key, value)\<close>, one of the "add if present" helpers: serialises the value to
  JSON text and inserts it; fails with a \<open>SerializationError\<close> if the value cannot be
  serialised.
\<close>

definition AddInterface :: "string \<Rightarrow> encodable \<Rightarrow> Params \<Rightarrow> Params \<times> error option" where
  "AddInterface key v p =
    (case v of
       Absent \<Rightarrow> (p, None)
     | Encodes json \<Rightarrow> (p(key \<mapsto> json), None)
     | NotEncodable \<Rightarrow> (p, Some SerializationError))"

section \<open>Request types\<close>

record BaseChat =
  ChatID :: int
  ChannelUsername :: string
  ProtectContent :: bool
  ReplyToMessageID :: int
  ReplyMarkup :: encodable
  DisableNotification :: bool
  AllowSendingWithoutReply :: bool
  BusinessConnectionID :: string
  MessageThreadID :: int

text \<open>
  \<open>BaseChat.params\<close>.  The error \<open>AddFirstValid\<close> returns is dropped by the source; only
  the error of the final \<open>AddInterface\<close> is returned.
\<close>

definition BaseChat_params :: "BaseChat \<Rightarrow> Params \<times> error option" where
  "BaseChat_params chat =
    (let params = Map.empty;
         params = fst (AddFirstValid ''chat_id''
                         [IntArg (ChatID chat), StringArg (ChannelUsername chat)] params);
         params = AddNonZero ''reply_to_message_id'' (ReplyToMessageID chat) params;
         params = AddBool ''disable_notification'' (DisableNotification chat) params;
         params = AddBool ''allow_sending_without_reply'' (AllowSendingWithoutReply chat) params;
         params = AddBool ''protect_content'' (ProtectContent chat) params;
         params = AddNonEmpty ''business_connection_id'' (BusinessConnectionID chat) params;
         params = AddNonZero64 ''message_thread_id'' (MessageThreadID chat) params
     in AddInterface ''reply_markup'' (ReplyMarkup chat) params)"

record MessageConfig =
  MessageConfig_BaseChat :: BaseChat
  Text :: string
  MessageConfig_ParseMode :: string
  Entities :: encodable
  DisableWebPagePreview :: bool
  LinkPreviewOptions :: encodable
  MessageConfig_AllowPaidBroadcast :: bool
  MessageConfig_ReplyParameters :: encodable
  MessageConfig_MessageEffectID :: string

definition MessageConfig_params :: "MessageConfig \<Rightarrow> Params \<times> error option" where
  "MessageConfig_params config =
    (case BaseChat_params (MessageConfig_BaseChat config) of
       (params, Some err) \<Rightarrow> (params, Some err)
     | (params, None) \<Rightarrow>
        (let params = AddNonEmpty ''text'' (Text config) params;
             params = AddBool ''disable_web_page_preview'' (DisableWebPagePreview config) params;
             params = AddNonEmpty ''parse_mode'' (MessageConfig_ParseMode config) params;
             params = fst (AddInterface ''link_preview_options'' (LinkPreviewOptions config) params);
             params = AddBool ''allow_paid_broadcast'' (MessageConfig_AllowPaidBroadcast config) params;
             params = fst (AddInterface ''reply_parameters'' (MessageConfig_ReplyParameters config) params);
             params = AddNonEmpty ''message_effect_id'' (MessageConfig_MessageEffectID config) params
         in AddInterface ''entities'' (Entities config) params))"

record BaseFile =
  BaseFile_BaseChat :: BaseChat
  File :: "RequestFileData option"

record PhotoConfig =
  PhotoConfig_BaseFile :: BaseFile
  PhotoConfig_Thumb :: "RequestFileData option"
  PhotoConfig_Caption :: string
  PhotoConfig_ParseMode :: string
  PhotoConfig_CaptionEntities :: encodable
  PhotoConfig_MessageEffectID :: string
  ShowCaptionAboveMedia :: bool
  HasSpoiler :: bool
  PhotoConfig_AllowPaidBroadcast :: bool
  PhotoConfig_ReplyParameters :: encodable

text \<open>
  \<open>PhotoConfig.files\<close>: the part \<open>photo\<close> with the request's file, then the part \<open>thumb\<close>
  when the thumbnail is not nil.  Neither is tested with \<open>NeedsUpload\<close>.
\<close>

definition PhotoConfig_files :: "PhotoConfig \<Rightarrow> RequestFile list" where
  "PhotoConfig_files config =
    (let files = [\<lparr>Name = ''photo'', Data = File (PhotoConfig_BaseFile config)\<rparr>];
         files = (if PhotoConfig_Thumb config \<noteq> None
                  then files @ [\<lparr>Name = ''thumb'', Data = PhotoConfig_Thumb config\<rparr>]
                  else files)
     in files)"

text \<open>
  A request is a value of some request type.  \<open>MessageConfig\<close> has the methods \<open>params\<close> and
  \<open>method\<close> only (it is \<open>Chattable\<close>); \<open>PhotoConfig\<close> has \<open>files\<close> as well (it is \<open>Fileable\<close>).
\<close>

datatype request = MessageRequest MessageConfig | PhotoRequest PhotoConfig

definition files_method :: "request \<Rightarrow> RequestFile list option" where
  "files_method r =
    (case r of MessageRequest c \<Rightarrow> None | PhotoRequest c \<Rightarrow> Some (PhotoConfig_files c))"

text \<open>
  Modelled from the spec: the part of dispatch (section 4.4; the code that
  submits requests is missing) that collects the Named File Parts of a request: those its \<open>files()\<close> reports
  if the type exposes \<open>files()\<close>, and none otherwise.
\<close>

definition named_file_parts :: "request \<Rightarrow> RequestFile list" where
  "named_file_parts r = (case files_method r of None \<Rightarrow> [] | Some files \<Rightarrow> files)"

text \<open>Whether a part wraps a file reference that requires upload.\<close>

definition wraps_upload :: "RequestFile \<Rightarrow> bool" where
  "wraps_upload part = (case Data part of None \<Rightarrow> False | Some f \<Rightarrow> NeedsUpload f)"

text \<open>A chat target and nothing else: every other field has its zero value.\<close>

definition chat_only :: "int \<Rightarrow> BaseChat" where
  "chat_only n =
    \<lparr>ChatID = n, ChannelUsername = [], ProtectContent = False, ReplyToMessageID = 0,
     ReplyMarkup = Absent, DisableNotification = False, AllowSendingWithoutReply = False,
     BusinessConnectionID = [], MessageThreadID = 0\<rparr>"

definition message_to_chat_only :: "int \<Rightarrow> MessageConfig" where
  "message_to_chat_only n =
    \<lparr>MessageConfig_BaseChat = chat_only n, Text = [], MessageConfig_ParseMode = [],
     Entities = Absent, DisableWebPagePreview = False, LinkPreviewOptions = Absent,
     MessageConfig_AllowPaidBroadcast = False, MessageConfig_ReplyParameters = Absent,
     MessageConfig_MessageEffectID = []\<rparr>"

text \<open>A photo request by remote URL with a thumbnail from a local path.\<close>

definition photo_url_thumb_path :: PhotoConfig where
  "photo_url_thumb_path =
    \<lparr>PhotoConfig_BaseFile =
       \<lparr>BaseFile_BaseChat = chat_only 42, File = Some (FileURL ''https://example.org/p.png'')\<rparr>,
     PhotoConfig_Thumb = Some (FilePath ''t.jpg''), PhotoConfig_Caption = [],
     PhotoConfig_ParseMode = [], PhotoConfig_CaptionEntities = Absent,
     PhotoConfig_MessageEffectID = [], ShowCaptionAboveMedia = False, HasSpoiler = False,
     PhotoConfig_AllowPaidBroadcast = False, PhotoConfig_ReplyParameters = Absent\<rparr>"

section \<open>Properties of the envelope projections\<close>

text \<open>
  Claim C5.  For every envelope, \<open>SentFrom\<close> inspects the sub-payloads in the order message,
  edited message, channel post, edited channel post, business connection, business message,
  edited business message, message reaction, inline query, chosen inline result, callback
  query, shipping query, pre-checkout query, poll answer, chat-member update, join request;
  it returns the sender of the first populated one, and nil when none of them is populated.
\<close>

theorem SentFrom_priority_order:
  "SentFrom u = first_populated (sender_candidates u)"
  unfolding SentFrom_def sender_candidates_def
  by (simp split: option.split)

text \<open>
  Claim C10.  In an envelope where only \<open>my_chat_member\<close> is populated, \<open>SentFrom\<close> returns
  nil while \<open>FromChat\<close> returns the chat of that sub-payload: \<open>MyChatMember\<close> is scanned by
  \<open>FromChat\<close> and not by \<open>SentFrom\<close>.
\<close>

theorem my_chat_member_only_projections:
  "SentFrom ((bare_update n)\<lparr>MyChatMember := Some c\<rparr>) = None \<and>
   FromChat ((bare_update n)\<lparr>MyChatMember := Some c\<rparr>) = Inr (ChatMemberUpdated_Chat c)"
  by (simp add: SentFrom_def FromChat_def bare_update_def)

text \<open>
  Claim C2.  \<open>FromChat\<close> is claimed never to panic, in particular on an envelope whose
  callback query is populated and carries no message.  On exactly that envelope the source
  dereferences the nil \<open>Message\<close> pointer: the projection panics instead of returning.
\<close>

theorem FromChat_callback_without_message_panics:
  "FromChat ((bare_update 1)\<lparr>CallbackQuery := Some
      \<lparr>CallbackQuery_ID = ''q1'',
       CallbackQuery_From = Some \<lparr>User_ID = 7, User_IsBot = False, User_FirstName = ''Ann'',
                                 User_LastName = [], User_UserName = []\<rparr>,
       CallbackQuery_Message = None,
       CallbackQuery_InlineMessageID = ''im1'',
       CallbackQuery_ChatInstance = ''ci'',
       CallbackQuery_Data = ''d'',
       CallbackQuery_GameShortName = []\<rparr>\<rparr>)
   = Inl NilPointerDereference"
  by (simp add: FromChat_def bare_update_def)

section \<open>The per-item functions and the rewrite\<close>

lemma rewritten_base_eq:
  "Media b = Some f \<Longrightarrow>
   rewritten_base i b =
     (if NeedsUpload f then set_Media (fileAttach (''attach://file-'' @ Itoa i)) b else b)"
  by (simp add: rewritten_base_def set_Media_def placeholder_def)

lemma rewritten_thumb_eq:
  "rewritten_thumb i t =
     (if thumb_NeedsUpload t then Some (fileAttach (''attach://file-'' @ Itoa i @ ''-thumb'')) else t)"
  by (cases t) (simp_all add: rewritten_thumb_def thumb_NeedsUpload_def placeholder_def)

lemma prepareInputMediaParam_recognised:
  assumes "has_media x" and "recognised x"
  shows "prepareInputMediaParam x idx = Inr (rewritten_item idx x)"
proof (cases x)
  case (DynPhoto m)
  with assms obtain f where "Media (Photo_Base m) = Some f" by (auto simp: has_media_def)
  with DynPhoto show ?thesis by (simp add: rewritten_base_eq)
next
  case (DynVideo m)
  with assms obtain f where "Media (Video_Base m) = Some f" by (auto simp: has_media_def)
  with DynVideo show ?thesis by (simp add: rewritten_base_eq rewritten_thumb_eq Let_def)
next
  case (DynAudio m)
  with assms obtain f where "Media (Audio_Base m) = Some f" by (auto simp: has_media_def)
  with DynAudio show ?thesis by (simp add: rewritten_base_eq rewritten_thumb_eq Let_def)
next
  case (DynDocument m)
  with assms obtain f where "Media (Document_Base m) = Some f" by (auto simp: has_media_def)
  with DynDocument show ?thesis by (simp add: rewritten_base_eq rewritten_thumb_eq Let_def)
qed (use assms in \<open>simp_all add: recognised_def\<close>)

lemma prepareInputMediaParam_unrecognised:
  "\<not> recognised x \<Longrightarrow> prepareInputMediaParam x idx = Inr DynNil"
  by (cases x) (simp_all add: recognised_def)

lemma rewritten_item_unrecognised: "\<not> recognised x \<Longrightarrow> rewritten_item i x = x"
  by (cases x) (simp_all add: recognised_def)

lemma rewritten_item_not_nil: "recognised x \<Longrightarrow> rewritten_item i x \<noteq> DynNil"
  by (cases x) (simp_all add: recognised_def)

subsection \<open>Reading and writing through slices\<close>

lemma slice_items_length:
  "valid_slice st sl \<Longrightarrow> length (slice_items st sl) = slice_len sl"
  by (auto simp: valid_slice_def slice_items_def)

lemma slice_items_nth:
  "valid_slice st sl \<Longrightarrow> i < slice_len sl \<Longrightarrow>
   slice_items st sl ! i = st ! slice_array sl ! (slice_off sl + i)"
  by (simp add: valid_slice_def slice_items_def)

lemma slice_get_older_array:
  assumes "valid_slice st sl" and "i < slice_len sl"
  shows "slice_get (st @ [arr]) sl i = Inr (slice_items st sl ! i)"
proof -
  from assms have a: "slice_array sl < length st"
    and b: "slice_off sl + i < length (st ! slice_array sl)"
    by (simp_all add: valid_slice_def)
  from a have "(st @ [arr]) ! slice_array sl = st ! slice_array sl"
    by (simp add: nth_append)
  with assms a b show ?thesis
    by (simp add: slice_get_def slice_items_nth)
qed

lemma slice_set_newest_array:
  assumes "i < length arr"
  shows "slice_set \<lparr>slice_array = length st, slice_off = 0, slice_len = length arr\<rparr> i v (st @ [arr])
         = Inr (st @ [arr[i := v]])"
  using assms by (simp add: slice_set_def)

lemma copy_into_newest_array:
  assumes "valid_slice st sl"
  shows "copy_slice \<lparr>slice_array = length st, slice_off = 0, slice_len = slice_len sl\<rparr> sl
           (st @ [replicate (slice_len sl) DynNil])
         = st @ [slice_items st sl]"
proof -
  from assms have a: "slice_array sl < length st" by (simp add: valid_slice_def)
  then have "slice_items (st @ [replicate (slice_len sl) DynNil]) sl = slice_items st sl"
    by (simp add: slice_items_def nth_append)
  with assms show ?thesis
    by (simp add: copy_slice_def Let_def slice_items_length)
qed

lemma slice_get_valid:
  assumes "valid_slice st sl" and "i < slice_len sl"
  shows "slice_get st sl i = Inr (slice_items st sl ! i)"
  using assms by (simp add: slice_get_def slice_items_nth) (simp add: valid_slice_def)

subsection \<open>The loop of prepareInputMediaForParams\<close>

lemma params_loop_result:
  assumes v: "valid_slice st inp"
    and n: "slice_len inp = n"
    and hm: "\<forall>x \<in> set (slice_items st inp). has_media x"
    and new: "new = \<lparr>slice_array = length st, slice_off = 0, slice_len = n\<rparr>"
  shows "length arr = n \<Longrightarrow> set idxs \<subseteq> {..<n} \<Longrightarrow>
    (\<forall>i<n. \<not> recognised (slice_items st inp ! i) \<longrightarrow> arr ! i = slice_items st inp ! i) \<Longrightarrow>
    \<exists>arr'. params_loop inp new idxs (st @ [arr]) = (None, st @ [arr']) \<and> length arr' = n \<and>
      (\<forall>j<n. arr' ! j =
         (if j \<in> set idxs then rewritten_item (int j) (slice_items st inp ! j) else arr ! j))"
proof (induction idxs arbitrary: arr)
  case Nil
  then show ?case by simp
next
  case (Cons i rest)
  let ?items = "slice_items st inp"
  let ?x = "?items ! i"
  from Cons.prems have i: "i < n" and rest: "set rest \<subseteq> {..<n}" by auto
  from v n have len: "length ?items = n" by (simp add: slice_items_length)
  from i len hm have hx: "has_media ?x" by simp
  from v n i have get: "slice_get (st @ [arr]) inp i = Inr ?x"
    by (simp add: slice_get_older_array)
  show ?case
  proof (cases "recognised ?x")
    case True
    let ?p = "rewritten_item (int i) ?x"
    from hx True have par: "prepareInputMediaParam ?x (int i) = Inr ?p"
      by (rule prepareInputMediaParam_recognised)
    from True have nn: "?p \<noteq> DynNil" by (rule rewritten_item_not_nil)
    from i Cons.prems(1) new
    have set: "slice_set new i ?p (st @ [arr]) = Inr (st @ [arr[i := ?p]])"
      using slice_set_newest_array [of i arr st ?p] by simp
    have inv: "\<forall>k<n. \<not> recognised (?items ! k) \<longrightarrow> (arr[i := ?p]) ! k = ?items ! k"
    proof (intro allI impI)
      fix k assume "k < n" and nr: "\<not> recognised (?items ! k)"
      with True have "i \<noteq> k" by auto
      with \<open>k < n\<close> nr Cons.prems(3) show "(arr[i := ?p]) ! k = ?items ! k" by simp
    qed
    from Cons.IH [of "arr[i := ?p]"] Cons.prems(1) rest inv
    obtain arr' where loop: "params_loop inp new rest (st @ [arr[i := ?p]]) = (None, st @ [arr'])"
      and l: "length arr' = n"
      and c: "\<forall>j<n. arr' ! j = (if j \<in> set rest then rewritten_item (int j) (?items ! j)
                                   else (arr[i := ?p]) ! j)"
      by auto
    from get par nn set loop
    have "params_loop inp new (i # rest) (st @ [arr]) = (None, st @ [arr'])" by simp
    moreover from c i Cons.prems(1)
    have "\<forall>j<n. arr' ! j = (if j \<in> set (i # rest) then rewritten_item (int j) (?items ! j)
                               else arr ! j)"
      by (auto simp: nth_list_update)
    ultimately show ?thesis using l by blast
  next
    case False
    then have par: "prepareInputMediaParam ?x (int i) = Inr DynNil"
      by (rule prepareInputMediaParam_unrecognised)
    from Cons.IH [of arr] Cons.prems(1) rest Cons.prems(3)
    obtain arr' where loop: "params_loop inp new rest (st @ [arr]) = (None, st @ [arr'])"
      and l: "length arr' = n"
      and c: "\<forall>j<n. arr' ! j = (if j \<in> set rest then rewritten_item (int j) (?items ! j)
                                   else arr ! j)"
      by auto
    from get par loop
    have "params_loop inp new (i # rest) (st @ [arr]) = (None, st @ [arr'])" by simp
    moreover from False i Cons.prems(3) have "arr ! i = rewritten_item (int i) ?x"
      by (simp add: rewritten_item_unrecognised)
    with c have "\<forall>j<n. arr' ! j = (if j \<in> set (i # rest) then rewritten_item (int j) (?items ! j)
                                      else arr ! j)"
      by auto
    ultimately show ?thesis using l by blast
  qed
qed

lemma prepareInputMediaForParams_result:
  assumes v: "valid_slice st inp"
    and hm: "\<forall>x \<in> set (slice_items st inp). has_media x"
  shows "prepareInputMediaForParams inp st =
    (Inr \<lparr>slice_array = length st, slice_off = 0, slice_len = slice_len inp\<rparr>,
     st @ [map (\<lambda>j. rewritten_item (int j) (slice_items st inp ! j)) [0..<slice_len inp]])"
proof -
  let ?n = "slice_len inp"
  let ?items = "slice_items st inp"
  let ?new = "\<lparr>slice_array = length st, slice_off = 0, slice_len = ?n\<rparr>"
  from v have len: "length ?items = ?n" by (rule slice_items_length)
  have sub: "set [0..<?n] \<subseteq> {..<?n}" by auto
  from params_loop_result [OF v refl hm refl, of ?items "[0..<?n]"] len sub
  obtain arr' where loop: "params_loop inp ?new [0..<?n] (st @ [?items]) = (None, st @ [arr'])"
    and l: "length arr' = ?n"
    and c: "\<forall>j<?n. arr' ! j = rewritten_item (int j) (?items ! j)"
    by auto
  from l c have "arr' = map (\<lambda>j. rewritten_item (int j) (?items ! j)) [0..<?n]"
    by (intro nth_equalityI) simp_all
  with loop copy_into_newest_array [OF v] show ?thesis
    by (simp add: prepareInputMediaForParams_def make_slice_def)
qed

lemma slice_items_newest_array:
  "slice_items (st @ [arr]) \<lparr>slice_array = length st, slice_off = 0, slice_len = length arr\<rparr> = arr"
  by (simp add: slice_items_def)

subsection \<open>The loop of prepareInputMediaForFiles\<close>

lemma prepareInputMediaFile_returns:
  "has_media x \<Longrightarrow> prepareInputMediaFile x idx = Inr (parts_of x idx)"
  by (cases x) (auto simp: has_media_def parts_of_def Let_def)

lemma prepareInputMediaFile_unrecognised:
  "\<not> recognised x \<Longrightarrow> prepareInputMediaFile x idx = Inr []"
  by (cases x) (simp_all add: recognised_def)

lemma files_loop_result:
  assumes v: "valid_slice st inp"
    and hm: "\<forall>x \<in> set (slice_items st inp). has_media x"
  shows "set idxs \<subseteq> {..<slice_len inp} \<Longrightarrow>
    files_loop inp idxs st files =
      Inr (files @ concat (map (\<lambda>i. parts_of (slice_items st inp ! i) (int i)) idxs))"
proof (induction idxs arbitrary: files)
  case Nil
  then show ?case by simp
next
  case (Cons i rest)
  then have i: "i < slice_len inp" and rest: "set rest \<subseteq> {..<slice_len inp}" by auto
  from v i have get: "slice_get st inp i = Inr (slice_items st inp ! i)"
    by (rule slice_get_valid)
  from v i hm have "has_media (slice_items st inp ! i)"
    by (simp add: slice_items_length)
  then have "prepareInputMediaFile (slice_items st inp ! i) (int i)
             = Inr (parts_of (slice_items st inp ! i) (int i))"
    by (rule prepareInputMediaFile_returns)
  with get Cons.IH [OF rest] show ?case by simp
qed

lemma prepareInputMediaForFiles_result:
  assumes "valid_slice st inp" and "\<forall>x \<in> set (slice_items st inp). has_media x"
  shows "prepareInputMediaForFiles inp st =
    Inr (concat (map (\<lambda>i. parts_of (slice_items st inp ! i) (int i)) [0..<slice_len inp]))"
proof -
  have "set [0..<slice_len inp] \<subseteq> {..<slice_len inp}" by auto
  from files_loop_result [OF assms this, of "[]"] show ?thesis
    by (simp add: prepareInputMediaForFiles_def)
qed

lemma concat_map_skip:
  "f i = [] \<Longrightarrow> concat (map f xs) = concat (map f (filter (\<lambda>j. j \<noteq> i) xs))"
  by (induction xs) auto

subsection \<open>What the rewriter leaves alone\<close>

lemma slice_set_frame:
  "slice_set sl i v st = Inr st' \<Longrightarrow> take (slice_array sl) st' = take (slice_array sl) st"
  by (auto simp: slice_set_def split: if_splits)

lemma params_loop_frame:
  "take (slice_array new) (snd (params_loop inp new idxs st)) = take (slice_array new) st"
proof (induction idxs arbitrary: st)
  case Nil
  show ?case by simp
next
  case (Cons i rest)
  show ?case
    by (auto simp: Cons.IH dest: slice_set_frame split: sum.splits)
qed

lemma prepareInputMediaForParams_frame:
  "take (length st) (snd (prepareInputMediaForParams inp st)) = st"
proof -
  let ?new = "\<lparr>slice_array = length st, slice_off = 0, slice_len = slice_len inp\<rparr>"
  let ?st2 = "copy_slice ?new inp (st @ [replicate (slice_len inp) DynNil])"
  have "take (length st) ?st2 = st"
    by (simp add: copy_slice_def Let_def)
  moreover have "take (length st) (snd (params_loop inp ?new [0..<slice_len inp] ?st2))
                 = take (length st) ?st2"
    using params_loop_frame [of ?new inp "[0..<slice_len inp]" ?st2] by simp
  moreover have "snd (prepareInputMediaForParams inp st)
                 = snd (params_loop inp ?new [0..<slice_len inp] ?st2)"
    by (simp add: prepareInputMediaForParams_def make_slice_def split: prod.splits option.splits)
  ultimately show ?thesis by simp
qed

lemma prepareInputMediaForParams_fresh:
  "fst (prepareInputMediaForParams inp st) = Inr new \<Longrightarrow> slice_array new = length st"
  by (auto simp: prepareInputMediaForParams_def make_slice_def split: prod.splits option.splits)

lemma slice_items_frame:
  assumes "valid_slice st sl" and "take (length st) st' = st"
  shows "slice_items st' sl = slice_items st sl"
proof -
  from assms have a: "slice_array sl < length st" by (simp add: valid_slice_def)
  from assms(2) have "length st \<le> length st'"
    by (metis length_take min.cobounded1)
  moreover from a assms(2) have "st' ! slice_array sl = st ! slice_array sl"
    by (metis nth_take)
  ultimately show ?thesis using a by (simp add: slice_items_def)
qed

section \<open>Properties of the media-group rewriter\<close>

lemma requires_no_upload_has_media: "requires_no_upload x \<Longrightarrow> has_media x"
  by (cases x) (auto simp: requires_no_upload_def has_media_def split: option.splits)

lemma requires_no_upload_parts: "requires_no_upload x \<Longrightarrow> parts_of x idx = []"
  by (cases x) (auto simp: requires_no_upload_def parts_of_def Let_def split: option.splits)

text \<open>
  Claim C1.  The file parts are claimed to be, for each item at position \<open>i\<close>, a part named
  \<open>file-<i>\<close> for a media reference that requires upload, then a part named
  \<open>file-<i>-thumb\<close> for a thumbnail that is present and requires upload.  For a single
  video whose media and thumbnail are both local paths the source returns two parts, and
  both are named \<open>file-0\<close>: the thumbnail part does not get the name \<open>file-0-thumb\<close>,
  which is the name the placeholder written by \<open>prepareInputMediaParam\<close> refers to.
\<close>

theorem prepareInputMediaForFiles_names_thumb_like_media:
  "prepareInputMediaForFiles (whole 0 1) [[DynVideo video_to_upload]] =
     Inr [\<lparr>Name = ''file-0'', Data = Some (FilePath ''v.mp4'')\<rparr>,
          \<lparr>Name = ''file-0'', Data = Some (FilePath ''t.jpg'')\<rparr>]"
  by (simp add: prepareInputMediaForFiles_def whole_def slice_get_def video_to_upload_def
      thumb_NeedsUpload_def Itoa_def decimal_nat.simps)

text \<open>
  Claim C6.  For a list of input media items, each carrying its media reference,
  \<open>prepareInputMediaForParams\<close> returns a sequence of the same length whose item at
  position \<open>i\<close> is the original item with its media reference replaced by
  \<open>attach://file-<i>\<close> exactly when that reference requires upload, and its thumbnail
  replaced by \<open>attach://file-<i>-thumb\<close> exactly when a thumbnail is present and requires
  upload; every other field, and every item of another variant, is as it was.
\<close>

theorem prepareInputMediaForParams_rewrites:
  assumes "valid_slice st inputMedia"
    and "list_all has_media (slice_items st inputMedia)"
  shows "\<exists>newMedia st'. prepareInputMediaForParams inputMedia st = (Inr newMedia, st') \<and>
    slice_items st' newMedia =
      map (\<lambda>i. rewritten_item (int i) (slice_items st inputMedia ! i)) [0..<slice_len inputMedia]"
proof -
  from assms(2) have hm: "\<forall>x \<in> set (slice_items st inputMedia). has_media x"
    by (simp add: list_all_iff)
  let ?out = "map (\<lambda>i. rewritten_item (int i) (slice_items st inputMedia ! i))
                [0..<slice_len inputMedia]"
  have "slice_items (st @ [?out])
          \<lparr>slice_array = length st, slice_off = 0, slice_len = slice_len inputMedia\<rparr> = ?out"
    using slice_items_newest_array [of st ?out] by simp
  with prepareInputMediaForParams_result [OF assms(1) hm] show ?thesis by simp
qed

theorem prepareInputMediaForParams_rewrites_witness:
  "valid_slice [[DynOther ''x'', DynPhoto photo_by_url, DynVideo video_to_upload]] \<lparr>slice_array = 0, slice_off = 1, slice_len = 2\<rparr> \<and>
   list_all has_media (slice_items [[DynOther ''x'', DynPhoto photo_by_url, DynVideo video_to_upload]] \<lparr>slice_array = 0, slice_off = 1, slice_len = 2\<rparr>) \<and>
   (\<exists>newMedia st'.
      prepareInputMediaForParams \<lparr>slice_array = 0, slice_off = 1, slice_len = 2\<rparr>
        [[DynOther ''x'', DynPhoto photo_by_url, DynVideo video_to_upload]] = (Inr newMedia, st') \<and>
      slice_items st' newMedia =
        [DynPhoto photo_by_url,
         DynVideo (video_to_upload
           \<lparr>Video_Base := (Video_Base video_to_upload)\<lparr>Media := Some (fileAttach ''attach://file-1'')\<rparr>,
            Video_Thumb := Some (fileAttach ''attach://file-1-thumb'')\<rparr>)])"
proof -
  let ?st = "[[DynOther ''x'', DynPhoto photo_by_url, DynVideo video_to_upload]]"
  let ?sl = "\<lparr>slice_array = 0, slice_off = 1, slice_len = 2\<rparr>"
  have v: "valid_slice ?st ?sl" by (simp add: valid_slice_def)
  have items: "slice_items ?st ?sl = [DynPhoto photo_by_url, DynVideo video_to_upload]"
    by (simp add: slice_items_def)
  have h: "list_all has_media (slice_items ?st ?sl)"
    unfolding items by (simp add: has_media_def photo_by_url_def video_to_upload_def)
  have upt2: "[0..<slice_len ?sl] = [0, 1]" by (simp add: upt_conv_Cons)
  have r: "map (\<lambda>i. rewritten_item (int i) (slice_items ?st ?sl ! i)) [0..<slice_len ?sl]
           = [DynPhoto photo_by_url,
              DynVideo (video_to_upload
                \<lparr>Video_Base := (Video_Base video_to_upload)\<lparr>Media := Some (fileAttach ''attach://file-1'')\<rparr>,
                 Video_Thumb := Some (fileAttach ''attach://file-1-thumb'')\<rparr>)]"
    unfolding items upt2
    by (simp add: rewritten_base_def rewritten_thumb_def placeholder_def
        photo_by_url_def video_to_upload_def Itoa_def decimal_nat.simps)
  from prepareInputMediaForParams_rewrites [OF v h] r v h show ?thesis by simp
qed

text \<open>
  Claim C7.  When no media or thumbnail reference of a list of input media items requires
  upload, \<open>prepareInputMediaForFiles\<close> returns the empty sequence of parts.
\<close>

theorem prepareInputMediaForFiles_empty_without_uploads:
  assumes "valid_slice st inputMedia"
    and "list_all requires_no_upload (slice_items st inputMedia)"
  shows "prepareInputMediaForFiles inputMedia st = Inr []"
proof -
  from assms(2) have nu: "\<forall>x \<in> set (slice_items st inputMedia). requires_no_upload x"
    by (simp add: list_all_iff)
  then have hm: "\<forall>x \<in> set (slice_items st inputMedia). has_media x"
    by (blast intro: requires_no_upload_has_media)
  have "parts_of (slice_items st inputMedia ! i) (int i) = []" if "i < slice_len inputMedia" for i
    using that nu assms(1) by (simp add: requires_no_upload_parts slice_items_length)
  then have "concat (map (\<lambda>i. parts_of (slice_items st inputMedia ! i) (int i))
               [0..<slice_len inputMedia]) = []"
    by simp
  with prepareInputMediaForFiles_result [OF assms(1) hm] show ?thesis by simp
qed

theorem prepareInputMediaForFiles_empty_without_uploads_witness:
  "valid_slice [[DynPhoto photo_by_url, DynDocument document_by_id]] (whole 0 2) \<and>
   list_all requires_no_upload
     (slice_items [[DynPhoto photo_by_url, DynDocument document_by_id]] (whole 0 2)) \<and>
   prepareInputMediaForFiles (whole 0 2) [[DynPhoto photo_by_url, DynDocument document_by_id]]
     = Inr []"
proof -
  let ?st = "[[DynPhoto photo_by_url, DynDocument document_by_id]]"
  have v: "valid_slice ?st (whole 0 2)" by (simp add: valid_slice_def whole_def)
  have h: "list_all requires_no_upload (slice_items ?st (whole 0 2))"
    by (simp add: slice_items_def whole_def requires_no_upload_def photo_by_url_def
        document_by_id_def thumb_NeedsUpload_def)
  from prepareInputMediaForFiles_empty_without_uploads [OF v h] v h show ?thesis by simp
qed

text \<open>
  Claim C8.  The rewriter does not mutate the caller's input.  Every backing array that
  existed before the call holds the same items after it, so the caller's list reads the
  same through its slice, and the rewritten sequence lives in an array allocated by the
  call.  \<open>prepareInputMediaForFiles\<close> performs no assignment to an element or a field of
  its input and returns only the list of parts, which is why it has no store to return.
\<close>

theorem prepareInputMediaForParams_leaves_input_unchanged:
  "take (length st) (snd (prepareInputMediaForParams inputMedia st)) = st \<and>
   (valid_slice st inputMedia \<longrightarrow>
      slice_items (snd (prepareInputMediaForParams inputMedia st)) inputMedia
        = slice_items st inputMedia) \<and>
   (\<forall>newMedia. fst (prepareInputMediaForParams inputMedia st) = Inr newMedia \<longrightarrow>
      slice_array newMedia = length st)"
proof -
  let ?st' = "snd (prepareInputMediaForParams inputMedia st)"
  have a: "take (length st) ?st' = st"
    by (rule prepareInputMediaForParams_frame)
  have b: "valid_slice st inputMedia \<longrightarrow> slice_items ?st' inputMedia = slice_items st inputMedia"
    using slice_items_frame [OF _ a] by blast
  have c: "\<forall>newMedia. fst (prepareInputMediaForParams inputMedia st) = Inr newMedia \<longrightarrow>
      slice_array newMedia = length st"
    using prepareInputMediaForParams_fresh by blast
  from a b c show ?thesis by blast
qed

theorem prepareInputMediaForParams_leaves_input_unchanged_witness:
  "valid_slice [[DynVideo video_to_upload, DynPhoto photo_by_url]] (whole 0 2) \<and>
   fst (prepareInputMediaForParams (whole 0 2) [[DynVideo video_to_upload, DynPhoto photo_by_url]])
     = Inr (whole 1 2) \<and>
   take 1 (snd (prepareInputMediaForParams (whole 0 2)
                  [[DynVideo video_to_upload, DynPhoto photo_by_url]]))
     = [[DynVideo video_to_upload, DynPhoto photo_by_url]] \<and>
   slice_items (snd (prepareInputMediaForParams (whole 0 2)
                  [[DynVideo video_to_upload, DynPhoto photo_by_url]])) (whole 0 2)
     = [DynVideo video_to_upload, DynPhoto photo_by_url] \<and>
   slice_array (whole 1 2) = length [[DynVideo video_to_upload, DynPhoto photo_by_url]]"
proof -
  let ?st = "[[DynVideo video_to_upload, DynPhoto photo_by_url]]"
  have v: "valid_slice ?st (whole 0 2)" by (simp add: valid_slice_def whole_def)
  have h: "\<forall>x \<in> set (slice_items ?st (whole 0 2)). has_media x"
    by (simp add: slice_items_def whole_def has_media_def photo_by_url_def video_to_upload_def)
  have f: "fst (prepareInputMediaForParams (whole 0 2) ?st) = Inr (whole 1 2)"
    using prepareInputMediaForParams_result [OF v h] by (simp add: whole_def)
  have i: "slice_items ?st (whole 0 2) = [DynVideo video_to_upload, DynPhoto photo_by_url]"
    by (simp add: slice_items_def whole_def)
  from prepareInputMediaForParams_leaves_input_unchanged [of ?st "whole 0 2"] v f i
  show ?thesis by (simp add: whole_def)
qed

text \<open>
  Claim C9.  An item whose variant is none of photo, video, audio and document is not an
  error: both per-item functions return for it, without a rewrite and without parts; in the
  rewritten sequence the item stands unchanged at its position, and the parts of the list
  are those of the other positions.
\<close>

theorem unrecognised_item_passes_through:
  assumes "valid_slice st inputMedia"
    and "list_all has_media (slice_items st inputMedia)"
    and "i < slice_len inputMedia"
    and "\<not> recognised (slice_items st inputMedia ! i)"
  shows "prepareInputMediaParam (slice_items st inputMedia ! i) (int i) = Inr DynNil \<and>
    prepareInputMediaFile (slice_items st inputMedia ! i) (int i) = Inr [] \<and>
    (\<exists>newMedia st'. prepareInputMediaForParams inputMedia st = (Inr newMedia, st') \<and>
       slice_items st' newMedia ! i = slice_items st inputMedia ! i) \<and>
    prepareInputMediaForFiles inputMedia st =
      Inr (concat (map (\<lambda>j. parts_of (slice_items st inputMedia ! j) (int j))
                     (filter (\<lambda>j. j \<noteq> i) [0..<slice_len inputMedia])))"
proof -
  let ?items = "slice_items st inputMedia"
  let ?n = "slice_len inputMedia"
  let ?out = "map (\<lambda>j. rewritten_item (int j) (?items ! j)) [0..<?n]"
  from assms(2) have hm: "\<forall>x \<in> set ?items. has_media x" by (simp add: list_all_iff)
  have a: "prepareInputMediaParam (?items ! i) (int i) = Inr DynNil"
    using assms(4) by (rule prepareInputMediaParam_unrecognised)
  have b: "prepareInputMediaFile (?items ! i) (int i) = Inr []"
    using assms(4) by (rule prepareInputMediaFile_unrecognised)
  have "slice_items (st @ [?out]) \<lparr>slice_array = length st, slice_off = 0, slice_len = ?n\<rparr> = ?out"
    using slice_items_newest_array [of st ?out] by simp
  moreover from assms(3,4) have "?out ! i = ?items ! i"
    by (simp add: rewritten_item_unrecognised)
  ultimately have c: "\<exists>newMedia st'. prepareInputMediaForParams inputMedia st = (Inr newMedia, st') \<and>
       slice_items st' newMedia ! i = ?items ! i"
    using prepareInputMediaForParams_result [OF assms(1) hm] by simp
  from b have "parts_of (?items ! i) (int i) = []" by (simp add: parts_of_def)
  then have "concat (map (\<lambda>j. parts_of (?items ! j) (int j)) [0..<?n])
             = concat (map (\<lambda>j. parts_of (?items ! j) (int j)) (filter (\<lambda>j. j \<noteq> i) [0..<?n]))"
    by (rule concat_map_skip)
  with prepareInputMediaForFiles_result [OF assms(1) hm]
  have d: "prepareInputMediaForFiles inputMedia st =
      Inr (concat (map (\<lambda>j. parts_of (?items ! j) (int j)) (filter (\<lambda>j. j \<noteq> i) [0..<?n])))"
    by simp
  from a b c d show ?thesis by blast
qed

theorem unrecognised_item_passes_through_witness:
  "valid_slice [[DynVideo video_to_upload, DynAnimation animation_to_upload]] (whole 0 2) \<and>
   list_all has_media
     (slice_items [[DynVideo video_to_upload, DynAnimation animation_to_upload]] (whole 0 2)) \<and>
   (1::nat) < slice_len (whole 0 2) \<and>
   \<not> recognised (DynAnimation animation_to_upload) \<and>
   prepareInputMediaParam (DynAnimation animation_to_upload) 1 = Inr DynNil \<and>
   prepareInputMediaFile (DynAnimation animation_to_upload) 1 = Inr [] \<and>
   (\<exists>newMedia st'.
      prepareInputMediaForParams (whole 0 2)
        [[DynVideo video_to_upload, DynAnimation animation_to_upload]] = (Inr newMedia, st') \<and>
      slice_items st' newMedia ! 1 = DynAnimation animation_to_upload) \<and>
   prepareInputMediaForFiles (whole 0 2)
     [[DynVideo video_to_upload, DynAnimation animation_to_upload]]
     = Inr [\<lparr>Name = ''file-0'', Data = Some (FilePath ''v.mp4'')\<rparr>,
            \<lparr>Name = ''file-0'', Data = Some (FilePath ''t.jpg'')\<rparr>]"
proof -
  let ?st = "[[DynVideo video_to_upload, DynAnimation animation_to_upload]]"
  have items: "slice_items ?st (whole 0 2)
               = [DynVideo video_to_upload, DynAnimation animation_to_upload]"
    by (simp add: slice_items_def whole_def)
  have v: "valid_slice ?st (whole 0 2)" by (simp add: valid_slice_def whole_def)
  have h: "list_all has_media (slice_items ?st (whole 0 2))"
    unfolding items by (simp add: has_media_def video_to_upload_def)
  have i: "(1::nat) < slice_len (whole 0 2)" by (simp add: whole_def)
  have u: "\<not> recognised (slice_items ?st (whole 0 2) ! 1)"
    unfolding items by (simp add: recognised_def)
  have f: "filter (\<lambda>j. j \<noteq> 1) [0..<slice_len (whole 0 2)] = [0]"
    by (simp add: whole_def upt_conv_Cons)
  have p: "parts_of (DynVideo video_to_upload) 0
           = [\<lparr>Name = ''file-0'', Data = Some (FilePath ''v.mp4'')\<rparr>,
              \<lparr>Name = ''file-0'', Data = Some (FilePath ''t.jpg'')\<rparr>]"
    by (simp add: parts_of_def video_to_upload_def thumb_NeedsUpload_def Itoa_def
        decimal_nat.simps)
  from unrecognised_item_passes_through [OF v h i u] v h i u
  show ?thesis unfolding f unfolding items by (simp add: p)
qed

section \<open>Properties of the request types\<close>

lemma Itoa_42: "Itoa 42 = ''42''"
  by (simp add: Itoa_def decimal_nat.simps)

lemma BaseChat_params_chat_only_42:
  "BaseChat_params (chat_only 42) =
    ([''chat_id'' \<mapsto> ''42'', ''disable_notification'' \<mapsto> ''false'',
      ''allow_sending_without_reply'' \<mapsto> ''false'', ''protect_content'' \<mapsto> ''false''], None)"
  by (simp add: BaseChat_params_def chat_only_def AddFirstValid_def AddNonZero_def AddBool_def
      AddNonEmpty_def AddNonZero64_def AddInterface_def Itoa_42)

text \<open>
  Claim C4, as stated: a request whose only populated field is the chat target 42 builds
  exactly the mapping \<open>{"chat_id": "42"}\<close>.  It does not: \<open>AddBool\<close> writes every
  boolean, so the mapping of such a \<open>MessageConfig\<close> also has the key
  \<open>disable_notification\<close>.
\<close>

theorem MessageConfig_params_chat_42_not_only_chat_id:
  "fst (MessageConfig_params (message_to_chat_only 42)) \<noteq> [''chat_id'' \<mapsto> ''42'']"
proof
  assume "fst (MessageConfig_params (message_to_chat_only 42)) = [''chat_id'' \<mapsto> ''42'']"
  then have "fst (MessageConfig_params (message_to_chat_only 42)) ''disable_notification''
             = [''chat_id'' \<mapsto> ''42''] ''disable_notification''"
    by simp
  then show False
    by (simp add: MessageConfig_params_def message_to_chat_only_def BaseChat_params_chat_only_42
        AddNonEmpty_def AddBool_def AddInterface_def)
qed

text \<open>
  Claim C4, amended.  For a \<open>MessageConfig\<close> whose only populated field is the chat target
  42, \<open>params\<close> returns without error the mapping that holds \<open>chat_id\<close> as \<open>"42"\<close> and
  the five boolean fields \<open>disable_notification\<close>, \<open>allow_sending_without_reply\<close>,
  \<open>protect_content\<close>, \<open>disable_web_page_preview\<close> and \<open>allow_paid_broadcast\<close> as
  \<open>"false"\<close>, and no other key; the request has no Named File Parts.
\<close>

theorem MessageConfig_params_chat_42:
  "MessageConfig_params (message_to_chat_only 42) =
     ([''chat_id'' \<mapsto> ''42'', ''disable_notification'' \<mapsto> ''false'',
       ''allow_sending_without_reply'' \<mapsto> ''false'', ''protect_content'' \<mapsto> ''false'',
       ''disable_web_page_preview'' \<mapsto> ''false'', ''allow_paid_broadcast'' \<mapsto> ''false''],
      None) \<and>
   named_file_parts (MessageRequest (message_to_chat_only 42)) = []"
  by (simp add: MessageConfig_params_def message_to_chat_only_def BaseChat_params_chat_only_42
      AddNonEmpty_def AddBool_def AddInterface_def named_file_parts_def files_method_def)

text \<open>
  Claim C3, as stated: every part a request reports wraps a reference that requires upload,
  and a photo request with a local-path thumbnail and a remote-URL photo reports exactly one
  part.  For that request \<open>PhotoConfig.files\<close> reports two parts, and the first wraps the
  URL, which does not require upload.
\<close>

theorem PhotoConfig_files_url_with_local_thumb_two_parts:
  "\<not> list_all wraps_upload (PhotoConfig_files photo_url_thumb_path) \<and>
   length (PhotoConfig_files photo_url_thumb_path) \<noteq> 1"
  by (simp add: PhotoConfig_files_def photo_url_thumb_path_def wraps_upload_def)

text \<open>
  Claim C3, amended.  \<open>PhotoConfig.files\<close> reports the part \<open>photo\<close> wrapping the request's
  file reference whether or not it requires upload, followed by the part \<open>thumb\<close> wrapping
  the thumbnail exactly when a thumbnail is present.  A request whose photo is a remote URL
  and whose thumbnail is a local path therefore reports two parts, of which only the
  thumbnail part wraps a reference that requires upload.
\<close>

theorem PhotoConfig_files_parts:
  "map Name (PhotoConfig_files config)
     = ''photo'' # (if PhotoConfig_Thumb config = None then [] else [''thumb'']) \<and>
   map Data (PhotoConfig_files config)
     = File (PhotoConfig_BaseFile config)
       # (if PhotoConfig_Thumb config = None then [] else [PhotoConfig_Thumb config]) \<and>
   (File (PhotoConfig_BaseFile config) = Some (FileURL url) \<and>
    PhotoConfig_Thumb config = Some (FilePath path) \<longrightarrow>
      PhotoConfig_files config
        = [\<lparr>Name = ''photo'', Data = Some (FileURL url)\<rparr>,
           \<lparr>Name = ''thumb'', Data = Some (FilePath path)\<rparr>] \<and>
      filter wraps_upload (PhotoConfig_files config)
        = [\<lparr>Name = ''thumb'', Data = Some (FilePath path)\<rparr>])"
  by (simp add: PhotoConfig_files_def wraps_upload_def)

theorem PhotoConfig_files_parts_witness:
  "File (PhotoConfig_BaseFile photo_url_thumb_path) = Some (FileURL ''https://example.org/p.png'') \<and>
   PhotoConfig_Thumb photo_url_thumb_path = Some (FilePath ''t.jpg'') \<and>
   PhotoConfig_files photo_url_thumb_path
     = [\<lparr>Name = ''photo'', Data = Some (FileURL ''https://example.org/p.png'')\<rparr>,
        \<lparr>Name = ''thumb'', Data = Some (FilePath ''t.jpg'')\<rparr>] \<and>
   filter wraps_upload (PhotoConfig_files photo_url_thumb_path)
     = [\<lparr>Name = ''thumb'', Data = Some (FilePath ''t.jpg'')\<rparr>]"
proof -
  have a: "File (PhotoConfig_BaseFile photo_url_thumb_path)
           = Some (FileURL ''https://example.org/p.png'')"
    and b: "PhotoConfig_Thumb photo_url_thumb_path = Some (FilePath ''t.jpg'')"
    by (simp_all add: photo_url_thumb_path_def)
  from PhotoConfig_files_parts [of photo_url_thumb_path "''https://example.org/p.png''" "''t.jpg''"]
    a b
  show ?thesis by blast
qed

end
